theory Spec2Isabelle
  imports Main
begin

section \<open>DuckLake client: catalog queries, path resolution and merge-on-read\<close>

text \<open>
  A shallow embedding of \<^verbatim>\<open>src/ducklake_python/ducklake_client.py\<close>. The catalog
  database is a record of relations (lists of rows, in storage order), every SQL query of
  the client is a list comprehension over them, the Parquet reader is a lookup in a store
  of decoded files, and every method returns the trace of external requests it made
  together with either an exception or its value.
\<close>

subsection \<open>Exceptions, traces and the result of a call\<close>

datatype error =
    ValueError string
  | UnboundLocalError string
  | KeyError string
  | ArrowInvalid string
  | ArrowNotImplementedError string
  | FileNotFoundError string

record path =
  rooted :: bool
  parts :: "string list"

text \<open>
  One event per request that leaves the client: the five catalog queries (with the
  snapshot parameter bound in the query, where there is one) and each call of
  \<^verbatim>\<open>pq.read_table\<close>.
\<close>

datatype event =
    SnapshotQuery
  | SchemaQuery int
  | TableQuery int int
  | ColumnQuery int int
  | DataFileQuery int int
  | ParquetRead path

type_synonym 'a run = "event list \<times> (error + 'a)"

definition ret :: "'a \<Rightarrow> 'a run" where
  "ret x = ([], Inr x)"

definition raise :: "error \<Rightarrow> 'a run" where
  "raise e = ([], Inl e)"

definition emit :: "event \<Rightarrow> (error + 'a) \<Rightarrow> 'a run" where
  "emit ev r = ([ev], r)"

text \<open>Sequencing: an exception in the first part skips the second, the traces append.\<close>

definition bind :: "'a run \<Rightarrow> ('a \<Rightarrow> 'b run) \<Rightarrow> 'b run" where
  "bind m f =
     (case snd m of
        Inl e \<Rightarrow> (fst m, Inl e)
      | Inr x \<Rightarrow> (fst m @ fst (f x), snd (f x)))"

subsection \<open>The catalog relations\<close>

text \<open>
  The columns the queries mention, and \<^verbatim>\<open>path_is_relative\<close> of
  \<^verbatim>\<open>ducklake_delete_file\<close>, which the catalog has and no query selects.
  \<^verbatim>\<open>end_snapshot\<close> and \<^verbatim>\<open>parent_column\<close> are nullable; the other
  columns are taken to hold values.
\<close>

record schema_row =
  schema_id :: int
  schema_name :: string
  schema_begin :: int
  schema_end :: "int option"

record table_row =
  table_id :: int
  table_name :: string
  table_schema_id :: int
  table_begin :: int
  table_end :: "int option"

record column_row =
  col_id :: int
  col_name :: string
  col_type :: string
  col_order :: int
  col_table_id :: int
  parent_column :: "int option"
  col_begin :: int
  col_end :: "int option"

record data_file_row =
  data_file_id :: int
  data_path_str :: string
  data_is_relative :: bool
  data_table_id :: int
  file_order :: int
  data_begin :: int
  data_end :: "int option"

record delete_file_row =
  del_data_file_id :: int
  del_path_str :: string
  del_is_relative :: bool
  del_begin :: int
  del_end :: "int option"

record catalog =
  ducklake_snapshot :: "int list"
  ducklake_schema :: "schema_row list"
  ducklake_table :: "table_row list"
  ducklake_column :: "column_row list"
  ducklake_data_file :: "data_file_row list"
  ducklake_delete_file :: "delete_file_row list"

text \<open>The dataclasses of the client.\<close>

record TableColumn =
  column_id :: int
  column_name :: string
  column_type :: string
  column_order :: int

record DataFile =
  data_file_path :: string
  delete_file_path :: "string option"
  path_is_relative :: bool

text \<open>
  The predicate every query repeats:
  \<^verbatim>\<open>:snapshot_id >= begin_snapshot AND (:snapshot_id < end_snapshot OR end_snapshot IS NULL)\<close>.
\<close>

definition valid_at :: "int \<Rightarrow> int \<Rightarrow> int option \<Rightarrow> bool" where
  "valid_at s b e = (s \<ge> b \<and> (case e of None \<Rightarrow> True | Some e' \<Rightarrow> s < e'))"

text \<open>SQL \<^verbatim>\<open>max\<close>: NULL on the empty relation.\<close>

fun sql_max :: "int list \<Rightarrow> int option" where
  "sql_max [] = None"
| "sql_max (x # xs) = Some (fold max xs x)"

subsection \<open>Catalog query layer\<close>

definition get_current_snapshot_id :: "catalog \<Rightarrow> int run" where
  "get_current_snapshot_id cat =
     emit SnapshotQuery
       (case filter (\<lambda>s. sql_max (ducklake_snapshot cat) = Some s) (ducklake_snapshot cat) of
          [] \<Rightarrow> Inl (ValueError ''No snapshots found in the catalog'')
        | s # rest \<Rightarrow> Inr s)"

text \<open>\<^verbatim>\<open>if snapshot_id is None: snapshot_id = self.get_current_snapshot_id()\<close>\<close>

definition default_snapshot :: "catalog \<Rightarrow> int option \<Rightarrow> int run" where
  "default_snapshot cat snapshot_id =
     (case snapshot_id of None \<Rightarrow> get_current_snapshot_id cat | Some s \<Rightarrow> ret s)"

definition list_schemas :: "catalog \<Rightarrow> int option \<Rightarrow> (int \<times> string) list run" where
  "list_schemas cat snapshot_id =
     bind (default_snapshot cat snapshot_id) (\<lambda>s.
       emit (SchemaQuery s)
         (Inr (map (\<lambda>r. (schema_id r, schema_name r))
                 (filter (\<lambda>r. valid_at s (schema_begin r) (schema_end r))
                    (ducklake_schema cat)))))"

definition list_tables :: "catalog \<Rightarrow> int \<Rightarrow> int option \<Rightarrow> (int \<times> string) list run" where
  "list_tables cat sid snapshot_id =
     bind (default_snapshot cat snapshot_id) (\<lambda>s.
       emit (TableQuery sid s)
         (Inr (map (\<lambda>r. (table_id r, table_name r))
                 (filter (\<lambda>r. table_schema_id r = sid \<and> valid_at s (table_begin r) (table_end r))
                    (ducklake_table cat)))))"

definition get_table_columns :: "catalog \<Rightarrow> int \<Rightarrow> int option \<Rightarrow> TableColumn list run" where
  "get_table_columns cat tid snapshot_id =
     bind (default_snapshot cat snapshot_id) (\<lambda>s.
       emit (ColumnQuery tid s)
         (Inr (map (\<lambda>r. \<lparr>column_id = col_id r, column_name = col_name r,
                          column_type = col_type r, column_order = col_order r\<rparr>)
                 (sort_key col_order
                    (filter (\<lambda>r. col_table_id r = tid \<and> parent_column r = None \<and>
                                  valid_at s (col_begin r) (col_end r))
                       (ducklake_column cat))))))"

text \<open>
  The data file query. The subquery keeps the delete files valid at the snapshot; the
  LEFT JOIN gives one row per matching delete file, or one row with a NULL delete path
  when none matches; ORDER BY is modelled by the stable \<open>sort_key\<close> (SQL leaves the order
  of rows with equal \<^verbatim>\<open>file_order\<close> open).
\<close>

definition active_delete_files :: "catalog \<Rightarrow> int \<Rightarrow> delete_file_row list" where
  "active_delete_files cat s =
     filter (\<lambda>d. valid_at s (del_begin d) (del_end d)) (ducklake_delete_file cat)"

definition left_join :: "delete_file_row list \<Rightarrow> data_file_row \<Rightarrow> (data_file_row \<times> string option) list" where
  "left_join dels dat =
     (case filter (\<lambda>d. data_file_id dat = del_data_file_id d) dels of
        [] \<Rightarrow> [(dat, None)]
      | m # ms \<Rightarrow> map (\<lambda>d. (dat, Some (del_path_str d))) (m # ms))"

definition data_file_query :: "catalog \<Rightarrow> int \<Rightarrow> int \<Rightarrow> (data_file_row \<times> string option) list" where
  "data_file_query cat tid s =
     sort_key (\<lambda>r. file_order (fst r))
       (concat (map (left_join (active_delete_files cat s))
          (filter (\<lambda>r. data_table_id r = tid \<and> valid_at s (data_begin r) (data_end r))
             (ducklake_data_file cat))))"

text \<open>The row of the result set as the dataclass: path, relativity flag, delete path.\<close>

definition DataFile_of_row :: "data_file_row \<times> string option \<Rightarrow> DataFile" where
  "DataFile_of_row r =
     \<lparr>data_file_path = data_path_str (fst r),
      delete_file_path = snd r,
      path_is_relative = data_is_relative (fst r)\<rparr>"

definition get_data_files :: "catalog \<Rightarrow> int \<Rightarrow> int option \<Rightarrow> DataFile list run" where
  "get_data_files cat tid snapshot_id =
     bind (default_snapshot cat snapshot_id) (\<lambda>s.
       emit (DataFileQuery tid s)
         (Inr (map DataFile_of_row (data_file_query cat tid s))))"

subsection \<open>Paths\<close>

text \<open>
  \<^verbatim>\<open>pathlib.Path\<close> on a POSIX system, as far as the client uses it: a path is
  its root flag and its components; parsing drops empty and \<^verbatim>\<open>.\<close> components;
  \<^verbatim>\<open>p / s\<close> restarts from \<open>s\<close> when \<open>s\<close> is rooted; \<^verbatim>\<open>absolute()\<close>
  prefixes the working directory of the process to a path that is not rooted. (The
  POSIX root of exactly two slashes is not distinguished from one slash.)
\<close>

fun split_on :: "char \<Rightarrow> string \<Rightarrow> string list" where
  "split_on c [] = [[]]"
| "split_on c (x # xs) =
     (if x = c then [] # split_on c xs
      else (case split_on c xs of
              [] \<Rightarrow> [[x]]
            | w # ws \<Rightarrow> (x # w) # ws))"

definition Path :: "string \<Rightarrow> path" where
  "Path s = \<lparr>rooted = (case s of [] \<Rightarrow> False | x # xs \<Rightarrow> x = CHR ''/''),
            parts = filter (\<lambda>p. p \<noteq> [] \<and> p \<noteq> ''.'') (split_on (CHR ''/'') s)\<rparr>"

definition truediv :: "path \<Rightarrow> string \<Rightarrow> path" where
  "truediv p s =
     (if rooted (Path s) then Path s
      else \<lparr>rooted = rooted p, parts = parts p @ parts (Path s)\<rparr>)"

definition absolute :: "path \<Rightarrow> path \<Rightarrow> path" where
  "absolute wd p = (if rooted p then p else \<lparr>rooted = True, parts = parts wd @ parts p\<rparr>)"

subsection \<open>The client and its environment\<close>

datatype cell = Null | IntV int | StrV string

text \<open>
  A \<^verbatim>\<open>pa.Table\<close>: the schema (field name and type) and the rows, each row with one
  cell per field.
\<close>

record arrow_table =
  schema :: "(string \<times> string) list"
  rows :: "cell list list"

text \<open>
  What lies outside the client: the working directory of the process and, for every
  path, what the Parquet decoder makes of the file there (an exception when the file is
  missing or does not decode).
\<close>

record filesystem =
  cwd :: path
  parquet :: "path \<Rightarrow> error + arrow_table"

record DucklakeClient =
  engine :: catalog
  data_path :: "path option"

text \<open>\<^verbatim>\<open>self.data_path = Path(data_path) if data_path else None\<close>\<close>

definition init :: "catalog \<Rightarrow> string option \<Rightarrow> DucklakeClient" where
  "init cat dp =
     \<lparr>engine = cat,
      data_path = (case dp of None \<Rightarrow> None | Some s \<Rightarrow> if s = [] then None else Some (Path s))\<rparr>"

definition resolve_path ::
    "filesystem \<Rightarrow> DucklakeClient \<Rightarrow> string \<Rightarrow> bool \<Rightarrow> string \<Rightarrow> string \<Rightarrow> error + path" where
  "resolve_path fs self p is_relative tname sname =
     (if is_relative then
        (case data_path self of
           None \<Rightarrow> Inl (ValueError ''Relative path provided but no data_path configured'')
         | Some root \<Rightarrow>
             Inr (absolute (cwd fs) (truediv (truediv (truediv root sname) tname) p)))
      else Inr (absolute (cwd fs) (Path p)))"

subsection \<open>The Parquet reader and table operations\<close>

text \<open>
  The position of the one field with the given name; none when no field or more than
  one field has it.
\<close>

definition field_index :: "(string \<times> string) list \<Rightarrow> string \<Rightarrow> nat option" where
  "field_index fs n =
     (case filter (\<lambda>i. fst (fs ! i) = n) [0..<length fs] of
        [i] \<Rightarrow> Some i
      | _ \<Rightarrow> None)"

text \<open>
  Column projection of the decoder: the requested columns in the requested order, an
  exception when a requested name does not denote one column of the file.
\<close>

definition select_columns :: "string list \<Rightarrow> arrow_table \<Rightarrow> error + arrow_table" where
  "select_columns cols t =
     (if list_all (\<lambda>n. field_index (schema t) n \<noteq> None) cols then
        Inr \<lparr>schema = map (\<lambda>n. schema t ! the (field_index (schema t) n)) cols,
             rows = map (\<lambda>r. map (\<lambda>n. r ! the (field_index (schema t) n)) cols) (rows t)\<rparr>
      else Inl (ArrowInvalid ''No match for FieldRef.Name''))"

text \<open>\<^verbatim>\<open>pq.read_table(str(path), columns=columns)\<close>\<close>

definition pq_read_table :: "filesystem \<Rightarrow> path \<Rightarrow> string list option \<Rightarrow> arrow_table run" where
  "pq_read_table fs p columns =
     emit (ParquetRead p)
       (case parquet fs p of
          Inl e \<Rightarrow> Inl e
        | Inr t \<Rightarrow> (case columns of None \<Rightarrow> Inr t | Some cols \<Rightarrow> select_columns cols t))"

text \<open>\<^verbatim>\<open>table[name].to_pylist()\<close>\<close>

definition column_values :: "arrow_table \<Rightarrow> string \<Rightarrow> error + cell list" where
  "column_values t n =
     (case field_index (schema t) n of
        None \<Rightarrow> Inl (KeyError n)
      | Some i \<Rightarrow> Inr (map (\<lambda>r. r ! i) (rows t)))"

definition read_delete_row_ids :: "filesystem \<Rightarrow> path \<Rightarrow> cell list run" where
  "read_delete_row_ids fs delete_path =
     bind (pq_read_table fs delete_path None) (\<lambda>table.
       ([], column_values table ''pos''))"

text \<open>
  \<^verbatim>\<open>keep_mask = [i not in delete_row_ids for i in range(len(table))]\<close> and
  \<^verbatim>\<open>table.filter(pa.array(keep_mask))\<close>. The array made from the empty list has the
  null type, and the filter takes a boolean mask only: for a table without rows the
  filter raises. Otherwise the rows whose mask entry is true are kept, in order.
\<close>

definition keep_mask :: "nat \<Rightarrow> cell list \<Rightarrow> bool list" where
  "keep_mask n delete_row_ids = map (\<lambda>i. IntV (int i) \<notin> set delete_row_ids) [0..<n]"

definition filter_table :: "arrow_table \<Rightarrow> bool list \<Rightarrow> error + arrow_table" where
  "filter_table t keep =
     (if keep = [] then Inl (ArrowNotImplementedError ''Filter argument must be boolean type'')
      else Inr (t\<lparr>rows := map fst (filter snd (zip (rows t) keep))\<rparr>))"

text \<open>
  \<^verbatim>\<open>pa.concat_tables\<close>: the schemas have to be equal; the number of rows of the result
  is that of its columns, so that tables without columns are joined to a table without rows.
\<close>

fun concat_tables :: "arrow_table list \<Rightarrow> error + arrow_table" where
  "concat_tables [] = Inl (ValueError ''Must pass at least one table'')"
| "concat_tables (t # ts) =
     (if list_all (\<lambda>u. schema u = schema t) ts then
        Inr \<lparr>schema = schema t,
             rows = (if schema t = [] then [] else concat (map rows (t # ts)))\<rparr>
      else Inl (ArrowInvalid ''Schema at index was different''))"

subsection \<open>Table materializer\<close>

text \<open>Python truthiness of an optional string and of an optional list.\<close>

definition truthy :: "'a list option \<Rightarrow> bool" where
  "truthy x = (case x of None \<Rightarrow> False | Some v \<Rightarrow> v \<noteq> [])"

text \<open>The body of the loop over the data files in \<^verbatim>\<open>_read_table\<close>.\<close>

definition read_data_file ::
    "filesystem \<Rightarrow> DucklakeClient \<Rightarrow> string \<Rightarrow> string \<Rightarrow> string list option \<Rightarrow> DataFile \<Rightarrow> arrow_table run" where
  "read_data_file fs self tname sname columns df =
     bind ([], resolve_path fs self (data_file_path df) (path_is_relative df) tname sname)
       (\<lambda>data_path.
     bind (pq_read_table fs data_path columns) (\<lambda>table.
       (case delete_file_path df of
          None \<Rightarrow> ret table
        | Some dp \<Rightarrow>
            if dp = [] then ret table
            else
              bind ([], resolve_path fs self dp (path_is_relative df) tname sname)
                (\<lambda>delete_path.
              bind (read_delete_row_ids fs delete_path) (\<lambda>delete_row_ids.
                ([], filter_table table (keep_mask (length (rows table)) delete_row_ids)))))))"

text \<open>The loop: the tables are appended in the order of the data files.\<close>

fun read_files ::
    "filesystem \<Rightarrow> DucklakeClient \<Rightarrow> string \<Rightarrow> string \<Rightarrow> string list option \<Rightarrow> DataFile list
       \<Rightarrow> arrow_table list run" where
  "read_files fs self tname sname columns [] = ret []"
| "read_files fs self tname sname columns (df # dfs) =
     bind (read_data_file fs self tname sname columns df) (\<lambda>t.
     bind (read_files fs self tname sname columns dfs) (\<lambda>ts.
       ret (t # ts)))"

text \<open>
  \<^verbatim>\<open>_read_table\<close>. In the branch for a table without data files the source reads the
  local variable \<^verbatim>\<open>table_columns\<close> before it is assigned when \<^verbatim>\<open>columns\<close> is a
  non-empty list; Python raises \<^verbatim>\<open>UnboundLocalError\<close> there.
\<close>

definition read_table_internal ::
    "filesystem \<Rightarrow> DucklakeClient \<Rightarrow> int \<Rightarrow> string \<Rightarrow> string \<Rightarrow> int option \<Rightarrow> string list option
       \<Rightarrow> arrow_table run" where
  "read_table_internal fs self tid tname sname snapshot_id columns =
     bind (default_snapshot (engine self) snapshot_id) (\<lambda>s.
     bind (get_data_files (engine self) tid (Some s)) (\<lambda>data_files.
       if data_files = [] then
         (if truthy columns then raise (UnboundLocalError ''table_columns'')
          else
            bind (get_table_columns (engine self) tid (Some s)) (\<lambda>table_columns.
              ret \<lparr>schema = map (\<lambda>c. (column_name c, ''string'')) table_columns,
                   rows = []\<rparr>))
       else
         bind (read_files fs self tname sname columns data_files) (\<lambda>arrow_tables.
           (case arrow_tables of
              [t] \<Rightarrow> ret t
            | _ \<Rightarrow> ([], concat_tables arrow_tables)))))"

subsection \<open>Public entry point\<close>

definition quoted :: "string \<Rightarrow> string" where
  "quoted s = CHR 0x27 # s @ [CHR 0x27]"

definition read_table ::
    "filesystem \<Rightarrow> DucklakeClient \<Rightarrow> string \<Rightarrow> string \<Rightarrow> int option \<Rightarrow> string list option
       \<Rightarrow> arrow_table run" where
  "read_table fs self sname tname snapshot_id columns =
     bind (default_snapshot (engine self) snapshot_id) (\<lambda>s.
     bind (list_schemas (engine self) (Some s)) (\<lambda>schemas.
       (case find (\<lambda>r. snd r = sname) schemas of
          None \<Rightarrow> raise (ValueError (''Schema '' @ quoted sname @ '' not found''))
        | Some sr \<Rightarrow>
            bind (list_tables (engine self) (fst sr) (Some s)) (\<lambda>tables.
              (case find (\<lambda>r. snd r = tname) tables of
                 None \<Rightarrow>
                   raise (ValueError (''Table '' @ quoted tname @ '' not found in schema ''
                                        @ quoted sname))
               | Some tr \<Rightarrow>
                   read_table_internal fs self (fst tr) tname sname (Some s) columns)))))"

subsection \<open>Reading traces and position lists\<close>

text \<open>The snapshot a catalog query was issued at, and whether an event reads a file.\<close>

fun event_snapshot :: "event \<Rightarrow> int option" where
  "event_snapshot SnapshotQuery = None"
| "event_snapshot (SchemaQuery s) = Some s"
| "event_snapshot (TableQuery i s) = Some s"
| "event_snapshot (ColumnQuery i s) = Some s"
| "event_snapshot (DataFileQuery i s) = Some s"
| "event_snapshot (ParquetRead p) = None"

fun is_file_read :: "event \<Rightarrow> bool" where
  "is_file_read (ParquetRead p) = True"
| "is_file_read e = False"

text \<open>A cell of a position list that names one of the rows \<open>0..n-1\<close>.\<close>

fun in_range :: "nat \<Rightarrow> cell \<Rightarrow> bool" where
  "in_range n (IntV k) = (0 \<le> k \<and> k < int n)"
| "in_range n c = False"

subsection \<open>A small lake\<close>

text \<open>
  A catalog with snapshots 0 to 3, one schema \<open>s\<close> created at snapshot 1 with the tables
  \<open>t\<close> (two data files, stored out of their file order, the first with a delete file from
  snapshot 3, the second with a delete file that was valid at snapshot 2 only) and \<open>e\<close>
  (no data files), and the decoded files.
\<close>

definition cat0 :: catalog where
  "cat0 =
     \<lparr>ducklake_snapshot = [0, 1, 2, 3],
      ducklake_schema =
        [\<lparr>schema_id = 0, schema_name = ''main'', schema_begin = 0, schema_end = None\<rparr>,
         \<lparr>schema_id = 1, schema_name = ''s'', schema_begin = 1, schema_end = None\<rparr>],
      ducklake_table =
        [\<lparr>table_id = 1, table_name = ''t'', table_schema_id = 1, table_begin = 1, table_end = None\<rparr>,
         \<lparr>table_id = 2, table_name = ''e'', table_schema_id = 1, table_begin = 1, table_end = None\<rparr>],
      ducklake_column =
        [\<lparr>col_id = 1, col_name = ''a'', col_type = ''int32'', col_order = 1, col_table_id = 1,
          parent_column = None, col_begin = 1, col_end = None\<rparr>,
         \<lparr>col_id = 2, col_name = ''b'', col_type = ''varchar'', col_order = 2, col_table_id = 1,
          parent_column = None, col_begin = 1, col_end = None\<rparr>,
         \<lparr>col_id = 3, col_name = ''a'', col_type = ''int32'', col_order = 1, col_table_id = 2,
          parent_column = None, col_begin = 1, col_end = None\<rparr>,
         \<lparr>col_id = 4, col_name = ''b'', col_type = ''varchar'', col_order = 2, col_table_id = 2,
          parent_column = None, col_begin = 1, col_end = None\<rparr>],
      ducklake_data_file =
        [\<lparr>data_file_id = 11, data_path_str = ''/x/g'', data_is_relative = False,
          data_table_id = 1, file_order = 2, data_begin = 2, data_end = None\<rparr>,
         \<lparr>data_file_id = 10, data_path_str = ''f'', data_is_relative = True,
          data_table_id = 1, file_order = 1, data_begin = 2, data_end = None\<rparr>],
      ducklake_delete_file =
        [\<lparr>del_data_file_id = 11, del_path_str = ''/x/h'', del_is_relative = False,
          del_begin = 2, del_end = Some 3\<rparr>,
         \<lparr>del_data_file_id = 10, del_path_str = ''d'', del_is_relative = False,
          del_begin = 3, del_end = None\<rparr>]\<rparr>"

definition table_f :: arrow_table where
  "table_f =
     \<lparr>schema = [(''a'', ''int32''), (''b'', ''string'')],
      rows = [[IntV 1, StrV ''x''], [IntV 2, StrV ''y''], [IntV 3, StrV ''z'']]\<rparr>"

definition table_g :: arrow_table where
  "table_g = \<lparr>schema = [(''a'', ''int32''), (''b'', ''string'')], rows = [[IntV 4, StrV ''w'']]\<rparr>"

definition table_d :: arrow_table where
  "table_d = \<lparr>schema = [(''pos'', ''int64'')], rows = [[IntV 1], [IntV 7], [IntV (- 1)]]\<rparr>"

definition table_h :: arrow_table where
  "table_h = \<lparr>schema = [(''pos'', ''int64'')], rows = [[IntV 0]]\<rparr>"

definition files0 :: "path \<Rightarrow> error + arrow_table" where
  "files0 p =
     (if p = \<lparr>rooted = True, parts = [''l'', ''s'', ''t'', ''f'']\<rparr> then Inr table_f
      else if p = \<lparr>rooted = True, parts = [''l'', ''s'', ''t'', ''d'']\<rparr> then Inr table_d
      else if p = \<lparr>rooted = True, parts = [''x'', ''g'']\<rparr> then Inr table_g
      else if p = \<lparr>rooted = True, parts = [''x'', ''h'']\<rparr> then Inr table_h
      else Inl (FileNotFoundError ''No such file or directory''))"

definition fs0 :: filesystem where
  "fs0 = \<lparr>cwd = \<lparr>rooted = True, parts = [''w'']\<rparr>, parquet = files0\<rparr>"

definition client0 :: DucklakeClient where
  "client0 = init cat0 (Some ''/l'')"

text \<open>
  The same files, but with a first data file that decodes to a table without rows, and
  the same files, but with a delete file that has the columns of a data file.
\<close>

definition fs1 :: filesystem where
  "fs1 =
     fs0\<lparr>parquet := \<lambda>p.
       if p = \<lparr>rooted = True, parts = [''l'', ''s'', ''t'', ''f'']\<rparr>
       then Inr (table_f\<lparr>rows := []\<rparr>) else files0 p\<rparr>"


text \<open>An event that is not a snapshot resolution and, if a catalog query, is issued at \<open>s\<close>.\<close>

fun pinned :: "int \<Rightarrow> event \<Rightarrow> bool" where
  "pinned s SnapshotQuery = False"
| "pinned s (SchemaQuery s') = (s' = s)"
| "pinned s (TableQuery i s') = (s' = s)"
| "pinned s (ColumnQuery i s') = (s' = s)"
| "pinned s (DataFileQuery i s') = (s' = s)"
| "pinned s (ParquetRead p) = True"

section \<open>Properties\<close>

subsection \<open>Sequencing\<close>

lemma bind_Inr: "snd m = Inr x \<Longrightarrow> bind m f = (fst m @ fst (f x), snd (f x))"
  by (simp add: bind_def)

lemma bind_Inl: "snd m = Inl e \<Longrightarrow> bind m f = (fst m, Inl e)"
  by (simp add: bind_def)

lemma bind_ret: "bind (ret x) f = f x"
  by (simp add: bind_def ret_def)

lemma bind_emit_Inr: "bind (emit ev (Inr x)) f = (ev # fst (f x), snd (f x))"
  by (simp add: bind_def emit_def)

lemma bind_pure_Inr: "bind ([], Inr x) f = f x"
  by (simp add: bind_def)


subsection \<open>A table without data files\<close>

text \<open>
  C2. A table with no valid data files is read as a zero-row table for every projection
  argument. The client does so when no projection is given; with a non-empty list of
  column names it raises \<^verbatim>\<open>UnboundLocalError\<close> after the data file query. Here: table
  \<open>e\<close> of the small lake, read at the current snapshot with the columns \<open>a\<close>, \<open>b\<close>.
\<close>

theorem read_table_empty_projection_raises:
  "read_table fs0 client0 ''s'' ''e'' None (Some [''a'', ''b'']) =
     ([SnapshotQuery, SchemaQuery 3, TableQuery 1 3, DataFileQuery 2 3],
      Inl (UnboundLocalError ''table_columns''))"
  by code_simp

subsection \<open>Traces of the catalog queries and of the materializer\<close>

lemma fst_get_current_snapshot_id: "fst (get_current_snapshot_id cat) = [SnapshotQuery]"
  by (simp add: get_current_snapshot_id_def emit_def)

lemma default_snapshot_Some: "default_snapshot cat (Some s) = ret s"
  by (simp add: default_snapshot_def)

lemma list_schemas_Some:
  "list_schemas cat (Some s) =
     ([SchemaQuery s],
      Inr (map (\<lambda>r. (schema_id r, schema_name r))
             (filter (\<lambda>r. valid_at s (schema_begin r) (schema_end r)) (ducklake_schema cat))))"
  by (simp add: list_schemas_def default_snapshot_Some bind_ret emit_def)

lemma list_tables_Some:
  "list_tables cat sid (Some s) =
     ([TableQuery sid s],
      Inr (map (\<lambda>r. (table_id r, table_name r))
             (filter (\<lambda>r. table_schema_id r = sid \<and> valid_at s (table_begin r) (table_end r))
                (ducklake_table cat))))"
  by (simp add: list_tables_def default_snapshot_Some bind_ret emit_def)

lemma get_data_files_Some:
  "get_data_files cat tid (Some s) =
     ([DataFileQuery tid s], Inr (map DataFile_of_row (data_file_query cat tid s)))"
  by (simp add: get_data_files_def default_snapshot_Some bind_ret emit_def)

lemma fst_get_table_columns_Some: "fst (get_table_columns cat tid (Some s)) = [ColumnQuery tid s]"
  by (simp add: get_table_columns_def default_snapshot_Some bind_ret emit_def)


lemma set_fst_bind: "set (fst (bind m f)) \<subseteq> set (fst m) \<union> (\<Union>x. set (fst (f x)))"
  by (auto simp add: bind_def split: sum.splits)

lemma trace_bind:
  "\<lbrakk>\<forall>e\<in>set (fst m). P e; \<And>x. \<forall>e\<in>set (fst (f x)). P e\<rbrakk> \<Longrightarrow> \<forall>e\<in>set (fst (bind m f)). P e"
  by (auto simp add: bind_def split: sum.splits)

lemma trace_pq_read_table: "\<forall>e\<in>set (fst (pq_read_table fs p cols)). is_file_read e"
  by (simp add: pq_read_table_def emit_def)

lemma trace_read_delete_row_ids: "\<forall>e\<in>set (fst (read_delete_row_ids fs p)). is_file_read e"
  unfolding read_delete_row_ids_def
  by (rule trace_bind) (simp_all add: trace_pq_read_table)

lemma trace_read_data_file: "\<forall>e\<in>set (fst (read_data_file fs self tn sn cols df)). is_file_read e"
  unfolding read_data_file_def
  apply (rule trace_bind, simp)
  apply (rule trace_bind, simp add: trace_pq_read_table)
  apply (simp split: option.split add: ret_def)
  apply (intro allI impI)
  apply (rule trace_bind, simp)
  apply (rule trace_bind, simp add: trace_read_delete_row_ids)
  apply simp
  done

lemma trace_read_files: "\<forall>e\<in>set (fst (read_files fs self tn sn cols dfs)). is_file_read e"
proof (induction dfs)
  case Nil
  show ?case by (simp add: ret_def)
next
  case (Cons df dfs)
  show ?case
    unfolding read_files.simps
    apply (rule trace_bind, rule trace_read_data_file)
    apply (rule trace_bind, rule Cons.IH)
    apply (simp add: ret_def)
    done
qed

lemma is_file_read_pinned: "is_file_read e \<Longrightarrow> pinned s e"
  by (cases e) simp_all

lemma trace_concat_step:
  "\<forall>e\<in>set (fst (case ts of [t] \<Rightarrow> ret t | _ \<Rightarrow> ([], concat_tables ts))). pinned s e"
  by (simp add: ret_def split: list.split)

lemma trace_read_table_internal:
  "\<forall>e\<in>set (fst (read_table_internal fs self tid tn sn (Some s) cols)). pinned s e"
proof -
  have files: "\<forall>e\<in>set (fst (read_files fs self tn sn cols dfs)). pinned s e" for dfs
    using trace_read_files is_file_read_pinned by blast
  have body: "\<forall>e\<in>set (fst (
       if dfs = [] then
         (if truthy cols then raise (UnboundLocalError ''table_columns'')
          else
            bind (get_table_columns (engine self) tid (Some s)) (\<lambda>table_columns.
              ret \<lparr>schema = map (\<lambda>c. (column_name c, ''string'')) table_columns,
                   rows = []\<rparr>))
       else
         bind (read_files fs self tn sn cols dfs) (\<lambda>arrow_tables.
           (case arrow_tables of
              [t] \<Rightarrow> ret t
            | _ \<Rightarrow> ([], concat_tables arrow_tables))))). pinned s e" for dfs
  proof (cases "dfs = []")
    case True
    show ?thesis
    proof (cases "truthy cols")
      case True
      with \<open>dfs = []\<close> show ?thesis by (simp add: raise_def)
    next
      case False
      have "\<forall>e\<in>set (fst (bind (get_table_columns (engine self) tid (Some s)) (\<lambda>table_columns.
              ret \<lparr>schema = map (\<lambda>c. (column_name c, ''string'')) table_columns,
                   rows = []\<rparr>))). pinned s e"
        by (rule trace_bind) (simp_all add: fst_get_table_columns_Some ret_def)
      with False \<open>dfs = []\<close> show ?thesis by simp
    qed
  next
    case False
    have "\<forall>e\<in>set (fst (bind (read_files fs self tn sn cols dfs) (\<lambda>arrow_tables.
           (case arrow_tables of
              [t] \<Rightarrow> ret t
            | _ \<Rightarrow> ([], concat_tables arrow_tables))))). pinned s e"
      by (rule trace_bind) (rule files, rule trace_concat_step)
    with False show ?thesis by simp
  qed
  show ?thesis
    unfolding read_table_internal_def default_snapshot_Some bind_ret get_data_files_Some
    by (rule trace_bind) (simp, rule body)
qed

lemma trace_read_table_Some:
  "\<forall>e\<in>set (fst (read_table fs self sname tname (Some s) columns)). pinned s e"
  unfolding read_table_def default_snapshot_Some bind_ret
  apply (rule trace_bind, simp add: list_schemas_Some)
  apply (simp only: split: option.split)
  apply (intro conjI impI allI)
   apply (simp add: raise_def)
  apply (rule trace_bind, simp add: list_tables_Some)
  apply (simp only: split: option.split)
  apply (intro conjI impI allI)
   apply (simp add: raise_def)
  apply (rule trace_read_table_internal)
  done

lemma read_table_None:
  "snd (get_current_snapshot_id (engine self)) = Inr s \<Longrightarrow>
   read_table fs self sname tname None columns =
     (SnapshotQuery # fst (read_table fs self sname tname (Some s) columns),
      snd (read_table fs self sname tname (Some s) columns))"
  by (simp add: read_table_def default_snapshot_def bind_Inr bind_ret fst_get_current_snapshot_id)

lemma pinned_iff: "pinned s e = (e \<noteq> SnapshotQuery \<and> (\<forall>s'. event_snapshot e = Some s' \<longrightarrow> s' = s))"
  by (cases e) auto

subsection \<open>Snapshot consistency\<close>

text \<open>
  C1. A call of \<^verbatim>\<open>read_table\<close> without a snapshot resolves the current snapshot once, as
  its first request; no later request of the call resolves it again, and every later
  catalog query of the call (schemas, tables, data files, columns) is issued at the value
  that first request returned.
\<close>

theorem read_table_one_snapshot:
  "\<exists>rest. fst (read_table fs self sname tname None columns) = SnapshotQuery # rest \<and>
     SnapshotQuery \<notin> set rest \<and>
     (\<forall>e\<in>set rest. \<forall>s. event_snapshot e = Some s \<longrightarrow>
        snd (get_current_snapshot_id (engine self)) = Inr s)"
proof (cases "snd (get_current_snapshot_id (engine self))")
  case (Inl err)
  then have "fst (read_table fs self sname tname None columns) = [SnapshotQuery]"
    by (simp add: read_table_def default_snapshot_def bind_Inl fst_get_current_snapshot_id)
  then show ?thesis by simp
next
  case (Inr s)
  let ?rest = "fst (read_table fs self sname tname (Some s) columns)"
  have tr: "fst (read_table fs self sname tname None columns) = SnapshotQuery # ?rest"
    using Inr by (simp add: read_table_None)
  have pin: "\<forall>e\<in>set ?rest. pinned s e"
    by (rule trace_read_table_Some)
  have "SnapshotQuery \<notin> set ?rest"
    using pin pinned.simps(1) by blast
  moreover have "\<forall>e\<in>set ?rest. \<forall>s'. event_snapshot e = Some s' \<longrightarrow>
        snd (get_current_snapshot_id (engine self)) = Inr s'"
    using pin Inr by (auto simp add: pinned_iff)
  ultimately show ?thesis using tr by blast
qed

theorem read_table_one_snapshot_witness:
  "fst (read_table fs0 client0 ''s'' ''e'' None None) =
     SnapshotQuery # [SchemaQuery 3, TableQuery 1 3, DataFileQuery 2 3, ColumnQuery 2 3] \<and>
   snd (get_current_snapshot_id (engine client0)) = Inr 3 \<and>
   (\<exists>rest. fst (read_table fs0 client0 ''s'' ''e'' None None) = SnapshotQuery # rest \<and>
     SnapshotQuery \<notin> set rest \<and>
     (\<forall>e\<in>set rest. \<forall>s. event_snapshot e = Some s \<longrightarrow>
        snd (get_current_snapshot_id (engine client0)) = Inr s))"
proof -
  have a: "fst (read_table fs0 client0 ''s'' ''e'' None None) =
     SnapshotQuery # [SchemaQuery 3, TableQuery 1 3, DataFileQuery 2 3, ColumnQuery 2 3]"
    by code_simp
  have b: "snd (get_current_snapshot_id (engine client0)) = Inr 3"
    by code_simp
  show ?thesis
    using a b read_table_one_snapshot [of fs0 client0 "''s''" "''e''" None] by blast
qed

subsection \<open>Positional deletes\<close>

lemma zip_mask_nth:
  "zip xs (map P [0..<length xs]) = map (\<lambda>i. (xs ! i, P i)) [0..<length xs]"
proof -
  have "zip xs (map P [0..<length xs]) = zip (map (nth xs) [0..<length xs]) (map P [0..<length xs])"
    by (simp add: map_nth)
  also have "\<dots> = map (\<lambda>i. (xs ! i, P i)) [0..<length xs]"
    by (simp add: zip_map_map zip_same_conv_map)
  finally show ?thesis .
qed

lemma filter_mask_nth:
  "map fst (filter snd (zip xs (map P [0..<length xs]))) = map (nth xs) (filter P [0..<length xs])"
  by (simp add: zip_mask_nth filter_map comp_def)

lemma keep_mask_Nil: "(keep_mask n D = []) = (n = 0)"
  by (simp add: keep_mask_def)

lemma filter_table_keep_mask:
  "rows t \<noteq> [] \<Longrightarrow>
   filter_table t (keep_mask (length (rows t)) D) =
     Inr (t\<lparr>rows := map (nth (rows t))
                       (filter (\<lambda>i. IntV (int i) \<notin> set D) [0..<length (rows t)])\<rparr>)"
  by (simp add: filter_table_def keep_mask_Nil) (simp add: keep_mask_def filter_mask_nth)

lemma filter_table_no_rows:
  "rows t = [] \<Longrightarrow>
   filter_table t (keep_mask (length (rows t)) D) =
     Inl (ArrowNotImplementedError ''Filter argument must be boolean type'')"
  by (simp add: filter_table_def keep_mask_Nil)

lemma in_range_member:
  "i < n \<Longrightarrow> (IntV (int i) \<in> set (filter (in_range n) D)) = (IntV (int i) \<in> set D)"
  by auto

lemma keep_mask_in_range: "keep_mask n (filter (in_range n) D) = keep_mask n D"
  unfolding keep_mask_def
  by (rule map_cong) (simp_all add: in_range_member del: set_filter)

lemma read_data_file_with_delete:
  assumes "resolve_path fs self (data_file_path df) (path_is_relative df) tn sn = Inr dp"
    and "snd (pq_read_table fs dp columns) = Inr t"
    and "delete_file_path df = Some p" and "p \<noteq> []"
    and "resolve_path fs self p (path_is_relative df) tn sn = Inr dq"
    and "snd (read_delete_row_ids fs dq) = Inr D"
  shows "read_data_file fs self tn sn columns df =
           (fst (pq_read_table fs dp columns) @ fst (read_delete_row_ids fs dq),
            filter_table t (keep_mask (length (rows t)) D))"
  using assms by (simp add: read_data_file_def bind_pure_Inr bind_Inr)

text \<open>
  A data file that decodes to a table \<open>t\<close> with at least one row, paired with a delete
  file whose position list is \<open>D\<close>, is read as \<open>t\<close> restricted to the rows at the positions
  that do not occur in \<open>D\<close>, in ascending position order; the entries of \<open>D\<close> that are
  negative or not below the number of rows can be dropped without changing the result.
\<close>

lemma positional_delete_some_rows:
  assumes "resolve_path fs self (data_file_path df) (path_is_relative df) tn sn = Inr dp"
    and "snd (pq_read_table fs dp columns) = Inr t"
    and "rows t \<noteq> []"
    and "delete_file_path df = Some p" and "p \<noteq> []"
    and "resolve_path fs self p (path_is_relative df) tn sn = Inr dq"
    and "snd (read_delete_row_ids fs dq) = Inr D"
  shows "snd (read_data_file fs self tn sn columns df) =
           Inr (t\<lparr>rows := map (nth (rows t))
                             (filter (\<lambda>i. IntV (int i) \<notin> set D) [0..<length (rows t)])\<rparr>) \<and>
         snd (read_data_file fs self tn sn columns df) =
           filter_table t (keep_mask (length (rows t)) (filter (in_range (length (rows t))) D))"
  using read_data_file_with_delete [OF assms(1,2,4,5,6,7)] assms(3)
  by (simp add: keep_mask_in_range filter_table_keep_mask)

lemma positional_delete_some_rows_example:
  "snd (read_data_file fs0 client0 ''t'' ''s'' None
          \<lparr>data_file_path = ''f'', delete_file_path = Some ''d'', path_is_relative = True\<rparr>) =
     Inr \<lparr>schema = [(''a'', ''int32''), (''b'', ''string'')],
          rows = [[IntV 1, StrV ''x''], [IntV 3, StrV ''z'']]\<rparr>"
  by code_simp

lemma positional_delete_no_rows:
  assumes "resolve_path fs self (data_file_path df) (path_is_relative df) tn sn = Inr dp"
    and "snd (pq_read_table fs dp columns) = Inr t"
    and "rows t = []"
    and "delete_file_path df = Some p" and "p \<noteq> []"
    and "resolve_path fs self p (path_is_relative df) tn sn = Inr dq"
    and "snd (read_delete_row_ids fs dq) = Inr D"
  shows "snd (read_data_file fs self tn sn columns df) =
           Inl (ArrowNotImplementedError ''Filter argument must be boolean type'')"
  using read_data_file_with_delete [OF assms(1,2,4,5,6,7)] filter_table_no_rows [OF assms(3), of D]
  by simp

text \<open>
  C3. A data file decoded to \<open>N\<close> rows and paired with a delete file with the position list
  \<open>D\<close> is read as the rows at the positions not in \<open>D\<close>, in decode order, and positions
  outside \<open>0..N-1\<close> raise no error. The client does so for \<open>N > 0\<close>; for \<open>N = 0\<close>, where every
  position of \<open>D\<close> is out of range, the mask is the empty list and the filter raises
  \<^verbatim>\<open>ArrowNotImplementedError\<close>. Here: the small lake with a first data file without
  rows, whose delete file lists the positions 1, 7 and -1; the read of that file and the
  whole \<^verbatim>\<open>read_table\<close> call fail.
\<close>

theorem positional_delete_no_rows_raises:
  "snd (read_delete_row_ids fs1 \<lparr>rooted = True, parts = [''l'', ''s'', ''t'', ''d'']\<rparr>) =
     Inr [IntV 1, IntV 7, IntV (- 1)] \<and>
   snd (pq_read_table fs1 \<lparr>rooted = True, parts = [''l'', ''s'', ''t'', ''f'']\<rparr> None) =
     Inr \<lparr>schema = [(''a'', ''int32''), (''b'', ''string'')], rows = []\<rparr> \<and>
   snd (read_data_file fs1 client0 ''t'' ''s'' None
          \<lparr>data_file_path = ''f'', delete_file_path = Some ''d'', path_is_relative = True\<rparr>) =
     Inl (ArrowNotImplementedError ''Filter argument must be boolean type'') \<and>
   read_table fs1 client0 ''s'' ''t'' None None =
     ([SnapshotQuery, SchemaQuery 3, TableQuery 1 3, DataFileQuery 1 3,
       ParquetRead \<lparr>rooted = True, parts = [''l'', ''s'', ''t'', ''f'']\<rparr>,
       ParquetRead \<lparr>rooted = True, parts = [''l'', ''s'', ''t'', ''d'']\<rparr>],
      Inl (ArrowNotImplementedError ''Filter argument must be boolean type''))"
  by code_simp

subsection \<open>The data file query\<close>

lemma left_join_Some:
  "(dat', Some p) \<in> set (left_join dels dat) \<Longrightarrow>
     dat' = dat \<and> (\<exists>d\<in>set dels. data_file_id dat = del_data_file_id d \<and> del_path_str d = p)"
proof (cases "filter (\<lambda>d. data_file_id dat = del_data_file_id d) dels")
  case Nil
  assume "(dat', Some p) \<in> set (left_join dels dat)"
  with Nil show ?thesis by (simp add: left_join_def)
next
  case (Cons m ms)
  assume "(dat', Some p) \<in> set (left_join dels dat)"
  with Cons have "(dat', Some p) \<in> (\<lambda>d. (dat, Some (del_path_str d))) ` set (m # ms)"
    by (simp add: left_join_def)
  then obtain d where d: "d \<in> set (m # ms)" "dat' = dat" "del_path_str d = p"
    by auto
  from d(1) Cons have "d \<in> set (filter (\<lambda>d. data_file_id dat = del_data_file_id d) dels)"
    by simp
  then have "d \<in> set dels" "data_file_id dat = del_data_file_id d" by simp_all
  with d show ?thesis by blast
qed

lemma left_join_fst: "r \<in> set (left_join dels dat) \<Longrightarrow> fst r = dat"
  by (auto simp add: left_join_def split: list.splits)

lemma set_data_file_query:
  "set (data_file_query cat tid s) =
     (\<Union>dat\<in>{r \<in> set (ducklake_data_file cat).
                 data_table_id r = tid \<and> valid_at s (data_begin r) (data_end r)}.
        set (left_join (active_delete_files cat s) dat))"
  by (auto simp add: data_file_query_def)

lemma data_file_query_Some:
  assumes "(dat, Some p) \<in> set (data_file_query cat tid s)"
  shows "dat \<in> set (ducklake_data_file cat) \<and> data_table_id dat = tid \<and>
         valid_at s (data_begin dat) (data_end dat) \<and>
         (\<exists>d\<in>set (ducklake_delete_file cat).
            del_data_file_id d = data_file_id dat \<and> del_path_str d = p \<and>
            valid_at s (del_begin d) (del_end d))"
proof -
  from assms obtain dat' where dat': "dat' \<in> set (ducklake_data_file cat)"
      "data_table_id dat' = tid" "valid_at s (data_begin dat') (data_end dat')"
      "(dat, Some p) \<in> set (left_join (active_delete_files cat s) dat')"
    by (auto simp add: set_data_file_query)
  from left_join_Some [OF dat'(4)] obtain d where d: "dat = dat'"
      "d \<in> set (active_delete_files cat s)" "data_file_id dat' = del_data_file_id d"
      "del_path_str d = p"
    by blast
  from d(2) have "d \<in> set (ducklake_delete_file cat)" "valid_at s (del_begin d) (del_end d)"
    by (simp_all add: active_delete_files_def)
  with dat' d show ?thesis by auto
qed

lemma get_data_files_resolved:
  "snd (default_snapshot cat snapshot_id) = Inr s \<Longrightarrow>
   snd (get_data_files cat tid snapshot_id) = Inr (map DataFile_of_row (data_file_query cat tid s))"
  by (simp add: get_data_files_def bind_Inr emit_def)

lemma active_delete_files_idem:
  "active_delete_files
     (cat\<lparr>ducklake_delete_file :=
            filter (\<lambda>d. valid_at s (del_begin d) (del_end d)) (ducklake_delete_file cat)\<rparr>) s =
   active_delete_files cat s"
  by (simp add: active_delete_files_def)

lemma valid_at_explicit:
  "valid_at s b e = (s \<ge> b \<and> (e = None \<or> (\<exists>e'. e = Some e' \<and> s < e')))"
  by (cases e) (simp_all add: valid_at_def)

text \<open>
  C4. At the snapshot \<open>S\<close> the call is resolved to, a data file returned by
  \<^verbatim>\<open>get_data_files\<close> carries a delete path only if the catalog has a delete file with
  that path that references the data file's id and whose validity interval covers \<open>S\<close>
  (\<open>S\<close> is at least its begin snapshot, and its end snapshot is null or above \<open>S\<close>);
  the delete files whose interval does not cover \<open>S\<close> can be removed from the catalog
  without changing the result.
\<close>

theorem delete_file_attached_only_if_valid:
  assumes "snd (default_snapshot cat snapshot_id) = Inr s"
    and "snd (get_data_files cat tid snapshot_id) = Inr dfs"
    and "df \<in> set dfs"
    and "delete_file_path df = Some p"
  shows "(\<exists>dat\<in>set (ducklake_data_file cat). \<exists>del\<in>set (ducklake_delete_file cat).
            data_file_path df = data_path_str dat \<and> data_table_id dat = tid \<and>
            valid_at s (data_begin dat) (data_end dat) \<and>
            del_data_file_id del = data_file_id dat \<and> del_path_str del = p \<and>
            s \<ge> del_begin del \<and>
            (del_end del = None \<or> (\<exists>e. del_end del = Some e \<and> s < e))) \<and>
         snd (get_data_files
                (cat\<lparr>ducklake_delete_file :=
                       filter (\<lambda>d. valid_at s (del_begin d) (del_end d))
                         (ducklake_delete_file cat)\<rparr>) tid (Some s)) = Inr dfs"
proof -
  from assms(1,2) have dfs: "dfs = map DataFile_of_row (data_file_query cat tid s)"
    by (simp add: get_data_files_resolved)
  with assms(3) obtain r where r: "r \<in> set (data_file_query cat tid s)" "df = DataFile_of_row r"
    by auto
  with assms(4) have "(fst r, Some p) \<in> set (data_file_query cat tid s)"
    by (cases r) (simp add: DataFile_of_row_def)
  from data_file_query_Some [OF this] r(2)
  have first: "\<exists>dat\<in>set (ducklake_data_file cat). \<exists>del\<in>set (ducklake_delete_file cat).
            data_file_path df = data_path_str dat \<and> data_table_id dat = tid \<and>
            valid_at s (data_begin dat) (data_end dat) \<and>
            del_data_file_id del = data_file_id dat \<and> del_path_str del = p \<and>
            s \<ge> del_begin del \<and>
            (del_end del = None \<or> (\<exists>e. del_end del = Some e \<and> s < e))"
    by (auto simp add: DataFile_of_row_def valid_at_explicit)
  have "data_file_query
          (cat\<lparr>ducklake_delete_file :=
                 filter (\<lambda>d. valid_at s (del_begin d) (del_end d)) (ducklake_delete_file cat)\<rparr>)
          tid s = data_file_query cat tid s"
    by (simp add: data_file_query_def active_delete_files_idem)
  then have second: "snd (get_data_files
                (cat\<lparr>ducklake_delete_file :=
                       filter (\<lambda>d. valid_at s (del_begin d) (del_end d))
                         (ducklake_delete_file cat)\<rparr>) tid (Some s)) = Inr dfs"
    by (simp add: get_data_files_def default_snapshot_def bind_ret emit_def dfs)
  from first second show ?thesis by blast
qed

theorem delete_file_attached_only_if_valid_witness:
  "snd (get_data_files cat0 1 None) =
     Inr [\<lparr>data_file_path = ''f'', delete_file_path = Some ''d'', path_is_relative = True\<rparr>,
          \<lparr>data_file_path = ''/x/g'', delete_file_path = None, path_is_relative = False\<rparr>] \<and>
   (\<exists>dat\<in>set (ducklake_data_file cat0). \<exists>del\<in>set (ducklake_delete_file cat0).
      ''f'' = data_path_str dat \<and> data_table_id dat = 1 \<and> del_data_file_id del = data_file_id dat \<and>
      del_path_str del = ''d'' \<and> 3 \<ge> del_begin del \<and> del_end del = None)"
proof -
  let ?df = "\<lparr>data_file_path = ''f'', delete_file_path = Some ''d'', path_is_relative = True\<rparr>"
  let ?dg = "\<lparr>data_file_path = ''/x/g'', delete_file_path = None, path_is_relative = False\<rparr>"
  have 1: "snd (default_snapshot cat0 None) = Inr 3" by code_simp
  have 2: "snd (get_data_files cat0 1 None) = Inr [?df, ?dg]" by code_simp
  have 3: "?df \<in> set [?df, ?dg]" by simp
  have 4: "delete_file_path ?df = Some ''d''" by simp
  have 5: "\<forall>del\<in>set (ducklake_delete_file cat0). del_path_str del = ''d'' \<longrightarrow> del_end del = None"
    by (simp add: cat0_def)
  from delete_file_attached_only_if_valid [OF 1 2 3 4] 5 2 show ?thesis
    by (simp only: DataFile.simps) blast
qed

subsection \<open>Name resolution failure\<close>

lemma bind_trace_Inr: "bind (evs, Inr x) f = (evs @ fst (f x), snd (f x))"
  by (simp add: bind_def)

lemma find_None_filter_map:
  "\<not> (\<exists>r\<in>set xs. Q r \<and> P (f r)) \<Longrightarrow> find P (map f (filter Q xs)) = None"
  by (auto simp add: find_None_iff)

lemma find_map_filter:
  "find P (map f (filter Q xs)) = map_option f (find (\<lambda>r. Q r \<and> P (f r)) xs)"
  by (induction xs) simp_all

lemma read_table_resolved:
  "snd (default_snapshot (engine self) snapshot_id) = Inr s \<Longrightarrow>
   read_table fs self sname tname snapshot_id columns =
     (fst (default_snapshot (engine self) snapshot_id) @
        fst (read_table fs self sname tname (Some s) columns),
      snd (read_table fs self sname tname (Some s) columns))"
  by (simp add: read_table_def bind_Inr default_snapshot_Some bind_ret)

lemma trace_default_snapshot: "\<forall>e\<in>set (fst (default_snapshot cat snapshot_id)). \<not> is_file_read e"
  by (cases snapshot_id) (simp_all add: default_snapshot_def fst_get_current_snapshot_id ret_def)

lemma read_table_schema_missing:
  assumes "\<not> (\<exists>r\<in>set (ducklake_schema (engine self)).
               schema_name r = sname \<and> valid_at s (schema_begin r) (schema_end r))"
  shows "read_table fs self sname tname (Some s) columns =
           ([SchemaQuery s], Inl (ValueError (''Schema '' @ quoted sname @ '' not found'')))"
proof -
  have "find (\<lambda>r. snd r = sname)
          (map (\<lambda>r. (schema_id r, schema_name r))
             (filter (\<lambda>r. valid_at s (schema_begin r) (schema_end r))
                (ducklake_schema (engine self)))) = None"
    using assms by (intro find_None_filter_map) auto
  then show ?thesis
    unfolding read_table_def default_snapshot_Some bind_ret list_schemas_Some
    by (simp add: bind_trace_Inr raise_def)
qed

lemma read_table_table_missing:
  assumes "find (\<lambda>r. valid_at s (schema_begin r) (schema_end r) \<and> schema_name r = sname)
             (ducklake_schema (engine self)) = Some sr"
    and "\<not> (\<exists>t\<in>set (ducklake_table (engine self)).
               table_schema_id t = schema_id sr \<and> table_name t = tname \<and>
               valid_at s (table_begin t) (table_end t))"
  shows "read_table fs self sname tname (Some s) columns =
           ([SchemaQuery s, TableQuery (schema_id sr) s],
            Inl (ValueError (''Table '' @ quoted tname @ '' not found in schema '' @ quoted sname)))"
proof -
  have a: "find (\<lambda>r. snd r = sname)
          (map (\<lambda>r. (schema_id r, schema_name r))
             (filter (\<lambda>r. valid_at s (schema_begin r) (schema_end r))
                (ducklake_schema (engine self)))) = Some (schema_id sr, schema_name sr)"
    using assms(1) by (simp add: find_map_filter)
  have b: "find (\<lambda>r. snd r = tname)
          (map (\<lambda>r. (table_id r, table_name r))
             (filter (\<lambda>r. table_schema_id r = schema_id sr \<and>
                           valid_at s (table_begin r) (table_end r))
                (ducklake_table (engine self)))) = None"
    using assms(2) by (intro find_None_filter_map) auto
  show ?thesis
    unfolding read_table_def default_snapshot_Some bind_ret list_schemas_Some
    by (simp add: bind_trace_Inr list_tables_Some raise_def a b)
qed

text \<open>
  C6. At the snapshot \<open>s\<close> the call is resolved to: when no schema row with the given
  name is valid at \<open>s\<close>, \<^verbatim>\<open>read_table\<close> raises the schema-not-found error and
  reads no file; when the first schema row with that name valid at \<open>s\<close> has no table row
  with the given table name valid at \<open>s\<close>, it raises the table-not-found error and reads
  no file. (The client raises both as \<^verbatim>\<open>ValueError\<close> with the not-found message.)
\<close>

theorem read_table_not_found:
  assumes "snd (default_snapshot (engine self) snapshot_id) = Inr s"
  shows "(\<not> (\<exists>r\<in>set (ducklake_schema (engine self)).
               schema_name r = sname \<and> valid_at s (schema_begin r) (schema_end r)) \<longrightarrow>
            snd (read_table fs self sname tname snapshot_id columns) =
              Inl (ValueError (''Schema '' @ quoted sname @ '' not found'')) \<and>
            \<not> (\<exists>e\<in>set (fst (read_table fs self sname tname snapshot_id columns)).
                 is_file_read e)) \<and>
         (\<forall>sr. find (\<lambda>r. valid_at s (schema_begin r) (schema_end r) \<and> schema_name r = sname)
                  (ducklake_schema (engine self)) = Some sr \<longrightarrow>
               \<not> (\<exists>t\<in>set (ducklake_table (engine self)).
                    table_schema_id t = schema_id sr \<and> table_name t = tname \<and>
                    valid_at s (table_begin t) (table_end t)) \<longrightarrow>
               snd (read_table fs self sname tname snapshot_id columns) =
                 Inl (ValueError (''Table '' @ quoted tname @ '' not found in schema ''
                                    @ quoted sname)) \<and>
               \<not> (\<exists>e\<in>set (fst (read_table fs self sname tname snapshot_id columns)).
                    is_file_read e))"
  using trace_default_snapshot [of "engine self" snapshot_id]
  by (auto simp add: read_table_resolved [OF assms] read_table_schema_missing
      read_table_table_missing)

theorem read_table_not_found_witness:
  "read_table fs0 client0 ''q'' ''t'' None None =
     ([SnapshotQuery, SchemaQuery 3], Inl (ValueError (''Schema '' @ quoted ''q'' @ '' not found''))) \<and>
   read_table fs0 client0 ''s'' ''q'' None None =
     ([SnapshotQuery, SchemaQuery 3, TableQuery 1 3],
      Inl (ValueError (''Table '' @ quoted ''q'' @ '' not found in schema '' @ quoted ''s'')))"
proof -
  have 1: "snd (default_snapshot (engine client0) None) = Inr 3" by code_simp
  have 2: "\<not> (\<exists>r\<in>set (ducklake_schema (engine client0)).
               schema_name r = ''q'' \<and> valid_at 3 (schema_begin r) (schema_end r))"
    by code_simp
  have 3: "find (\<lambda>r. valid_at 3 (schema_begin r) (schema_end r) \<and> schema_name r = ''s'')
             (ducklake_schema (engine client0)) =
           Some \<lparr>schema_id = 1, schema_name = ''s'', schema_begin = 1, schema_end = None\<rparr>"
    by code_simp
  have 4: "\<not> (\<exists>t\<in>set (ducklake_table (engine client0)).
               table_schema_id t = 1 \<and> table_name t = ''q'' \<and>
               valid_at 3 (table_begin t) (table_end t))"
    by code_simp
  have 5: "fst (read_table fs0 client0 ''q'' ''t'' None None) = [SnapshotQuery, SchemaQuery 3]"
    by code_simp
  have 6: "fst (read_table fs0 client0 ''s'' ''q'' None None) =
             [SnapshotQuery, SchemaQuery 3, TableQuery 1 3]"
    by code_simp
  from read_table_not_found [OF 1, of "''q''" fs0 "''t''" None] 2
  have a: "snd (read_table fs0 client0 ''q'' ''t'' None None) =
             Inl (ValueError (''Schema '' @ quoted ''q'' @ '' not found''))"
    by blast
  from read_table_not_found [OF 1, of "''s''" fs0 "''q''" None] 3 4
  have b: "snd (read_table fs0 client0 ''s'' ''q'' None None) =
             Inl (ValueError (''Table '' @ quoted ''q'' @ '' not found in schema '' @ quoted ''s''))"
    by simp
  from a b 5 6 show ?thesis by (simp add: prod_eq_iff)
qed

subsection \<open>Path resolution\<close>

lemma rooted_truediv: "rooted p \<Longrightarrow> rooted (truediv p s)"
  by (simp add: truediv_def)

lemma absolute_rooted: "rooted p \<Longrightarrow> absolute wd p = p"
  by (simp add: absolute_def)

lemma rooted_absolute: "rooted (absolute wd p)"
  by (simp add: absolute_def)

text \<open>
  With the relative data root \<open>l\<close>, the same path, flag, schema name, table name and
  data root resolve to different paths in the working directories \<open>/w\<close> and \<open>/v\<close>, and
  in \<open>/w\<close> the result is \<open>/w/l/s/t/f\<close>, not the join \<open>l/s/t/f\<close>.
\<close>

theorem resolve_path_cwd_counterexample:
  "resolve_path \<lparr>cwd = \<lparr>rooted = True, parts = [''w'']\<rparr>, parquet = files0\<rparr>
       (init cat0 (Some ''l'')) ''f'' True ''t'' ''s'' \<noteq>
   resolve_path \<lparr>cwd = \<lparr>rooted = True, parts = [''v'']\<rparr>, parquet = files0\<rparr>
       (init cat0 (Some ''l'')) ''f'' True ''t'' ''s'' \<and>
   resolve_path \<lparr>cwd = \<lparr>rooted = True, parts = [''w'']\<rparr>, parquet = files0\<rparr>
       (init cat0 (Some ''l'')) ''f'' True ''t'' ''s'' \<noteq>
   Inr (truediv (truediv (truediv (Path ''l'') ''s'') ''t'') ''f'') \<and>
   resolve_path \<lparr>cwd = \<lparr>rooted = True, parts = [''w'']\<rparr>, parquet = files0\<rparr>
       (init cat0 (Some ''l'')) ''f'' True ''t'' ''s'' =
   Inr \<lparr>rooted = True, parts = [''w'', ''l'', ''s'', ''t'', ''f'']\<rparr>"
  by code_simp

text \<open>
  C7, as amended. Path resolution has no effect and is a function of the path, the
  relativity flag, the schema name, the table name, the data root and the working
  directory of the process: a relative path with a data root configured resolves to the
  join of data root, schema name, table name and path, made absolute against the working
  directory (the join itself when the data root is absolute); a path that is not relative
  resolves to the path made absolute against the working directory (the path itself when
  it is absolute); a relative path without a data root raises the \<^verbatim>\<open>ValueError\<close> of
  the missing configuration. Neither the catalog nor the stored files matter.
\<close>

theorem resolve_path_cases:
  "(is_relative \<and> data_path self = Some root \<longrightarrow>
      resolve_path fs self p is_relative tname sname =
        Inr (absolute (cwd fs) (truediv (truediv (truediv root sname) tname) p)) \<and>
      (rooted root \<longrightarrow>
         resolve_path fs self p is_relative tname sname =
           Inr (truediv (truediv (truediv root sname) tname) p))) \<and>
   (\<not> is_relative \<longrightarrow>
      resolve_path fs self p is_relative tname sname = Inr (absolute (cwd fs) (Path p)) \<and>
      (rooted (Path p) \<longrightarrow> resolve_path fs self p is_relative tname sname = Inr (Path p))) \<and>
   (is_relative \<and> data_path self = None \<longrightarrow>
      resolve_path fs self p is_relative tname sname =
        Inl (ValueError ''Relative path provided but no data_path configured'')) \<and>
   (\<forall>fs' self'. cwd fs' = cwd fs \<longrightarrow> data_path self' = data_path self \<longrightarrow>
      resolve_path fs' self' p is_relative tname sname =
        resolve_path fs self p is_relative tname sname)"
  by (auto simp add: resolve_path_def rooted_truediv absolute_rooted split: option.split)

theorem resolve_path_cases_witness:
  "resolve_path fs0 client0 ''f'' True ''t'' ''s'' =
     Inr \<lparr>rooted = True, parts = [''l'', ''s'', ''t'', ''f'']\<rparr> \<and>
   resolve_path fs0 client0 ''/x/g'' False ''t'' ''s'' = Inr \<lparr>rooted = True, parts = [''x'', ''g'']\<rparr> \<and>
   resolve_path fs0 client0 ''x/g'' False ''t'' ''s'' =
     Inr \<lparr>rooted = True, parts = [''w'', ''x'', ''g'']\<rparr> \<and>
   resolve_path fs0 (init cat0 None) ''f'' True ''t'' ''s'' =
     Inl (ValueError ''Relative path provided but no data_path configured'') \<and>
   resolve_path (fs0\<lparr>parquet := \<lambda>p. Inr table_f\<rparr>) (init (cat0\<lparr>ducklake_snapshot := []\<rparr>) (Some ''/l''))
       ''f'' True ''t'' ''s'' =
     resolve_path fs0 client0 ''f'' True ''t'' ''s''"
proof -
  have 1: "data_path client0 = Some (Path ''/l'')" by code_simp
  have 2: "rooted (Path ''/l'')" by code_simp
  have 3: "truediv (truediv (truediv (Path ''/l'') ''s'') ''t'') ''f'' =
             \<lparr>rooted = True, parts = [''l'', ''s'', ''t'', ''f'']\<rparr>" by code_simp
  have 4: "rooted (Path ''/x/g'')" "Path ''/x/g'' = \<lparr>rooted = True, parts = [''x'', ''g'']\<rparr>"
    by code_simp+
  have 5: "absolute (cwd fs0) (Path ''x/g'') = \<lparr>rooted = True, parts = [''w'', ''x'', ''g'']\<rparr>"
    by code_simp
  have 6: "data_path (init cat0 None) = None" by code_simp
  have 7: "cwd (fs0\<lparr>parquet := \<lambda>p. Inr table_f\<rparr>) = cwd fs0"
    "data_path (init (cat0\<lparr>ducklake_snapshot := []\<rparr>) (Some ''/l'')) = data_path client0"
    by (simp_all add: client0_def init_def)
  from resolve_path_cases [of True client0 "Path ''/l''" fs0 "''f''" "''t''" "''s''"] 1 2
  have "resolve_path fs0 client0 ''f'' True ''t'' ''s'' =
     Inr (truediv (truediv (truediv (Path ''/l'') ''s'') ''t'') ''f'')"
    by blast
  with 3 have a: "resolve_path fs0 client0 ''f'' True ''t'' ''s'' =
     Inr \<lparr>rooted = True, parts = [''l'', ''s'', ''t'', ''f'']\<rparr>"
    by simp
  from resolve_path_cases [of False client0 "Path ''/l''" fs0 "''/x/g''" "''t''" "''s''"] 4(1)
  have "resolve_path fs0 client0 ''/x/g'' False ''t'' ''s'' = Inr (Path ''/x/g'')"
    by blast
  with 4(2) have b: "resolve_path fs0 client0 ''/x/g'' False ''t'' ''s'' =
     Inr \<lparr>rooted = True, parts = [''x'', ''g'']\<rparr>"
    by simp
  from resolve_path_cases [of False client0 "Path ''/l''" fs0 "''x/g''" "''t''" "''s''"]
  have "resolve_path fs0 client0 ''x/g'' False ''t'' ''s'' = Inr (absolute (cwd fs0) (Path ''x/g''))"
    by blast
  with 5 have c: "resolve_path fs0 client0 ''x/g'' False ''t'' ''s'' =
     Inr \<lparr>rooted = True, parts = [''w'', ''x'', ''g'']\<rparr>"
    by simp
  from resolve_path_cases [of True "init cat0 None" "Path ''/l''" fs0 "''f''" "''t''" "''s''"] 6
  have d: "resolve_path fs0 (init cat0 None) ''f'' True ''t'' ''s'' =
     Inl (ValueError ''Relative path provided but no data_path configured'')"
    by blast
  from resolve_path_cases [of True client0 "Path ''/l''" fs0 "''f''" "''t''" "''s''"] 7
  have e: "resolve_path (fs0\<lparr>parquet := \<lambda>p. Inr table_f\<rparr>)
       (init (cat0\<lparr>ducklake_snapshot := []\<rparr>) (Some ''/l'')) ''f'' True ''t'' ''s'' =
     resolve_path fs0 client0 ''f'' True ''t'' ''s''"
    by blast
  from a b c d e show ?thesis by blast
qed

subsection \<open>The relativity flag of a delete path\<close>

lemma fst_pq_read_table: "fst (pq_read_table fs p cols) = [ParquetRead p]"
  by (simp add: pq_read_table_def emit_def)

lemma fst_read_delete_row_ids: "fst (read_delete_row_ids fs p) = [ParquetRead p]"
  by (simp add: read_delete_row_ids_def bind_def fst_pq_read_table split: sum.split)

lemma resolve_path_same_flag:
  "resolve_path fs self p is_relative tn sn = Inr dp \<Longrightarrow>
     \<exists>dq. resolve_path fs self q is_relative tn sn = Inr dq"
  by (auto simp add: resolve_path_def split: if_splits option.splits)

lemma fst_read_data_file_with_delete:
  assumes "resolve_path fs self (data_file_path df) (path_is_relative df) tn sn = Inr dp"
    and "snd (pq_read_table fs dp columns) = Inr t"
    and "delete_file_path df = Some p" and "p \<noteq> []"
    and "resolve_path fs self p (path_is_relative df) tn sn = Inr dq"
  shows "fst (read_data_file fs self tn sn columns df) = [ParquetRead dp, ParquetRead dq]"
  using assms
  by (simp add: read_data_file_def bind_pure_Inr bind_Inr fst_pq_read_table
      fst_read_delete_row_ids bind_def ret_def split: sum.split)

lemma left_join_flag:
  "left_join (map (\<lambda>d. d\<lparr>del_is_relative := g d\<rparr>) dels) dat = left_join dels dat"
proof -
  have "filter (\<lambda>d. data_file_id dat = del_data_file_id d) (map (\<lambda>d. d\<lparr>del_is_relative := g d\<rparr>) dels) =
        map (\<lambda>d. d\<lparr>del_is_relative := g d\<rparr>) (filter (\<lambda>d. data_file_id dat = del_data_file_id d) dels)"
    by (simp add: filter_map comp_def)
  then show ?thesis
    by (cases "filter (\<lambda>d. data_file_id dat = del_data_file_id d) dels")
       (simp_all add: left_join_def comp_def)
qed

lemma active_delete_files_flag:
  "active_delete_files
     (cat\<lparr>ducklake_delete_file := map (\<lambda>d. d\<lparr>del_is_relative := g d\<rparr>) (ducklake_delete_file cat)\<rparr>) s =
   map (\<lambda>d. d\<lparr>del_is_relative := g d\<rparr>) (active_delete_files cat s)"
  by (simp add: active_delete_files_def filter_map comp_def)

lemma data_file_query_flag:
  "data_file_query
     (cat\<lparr>ducklake_delete_file := map (\<lambda>d. d\<lparr>del_is_relative := g d\<rparr>) (ducklake_delete_file cat)\<rparr>)
     tid s = data_file_query cat tid s"
proof -
  have "left_join (map (\<lambda>d. d\<lparr>del_is_relative := g d\<rparr>) (active_delete_files cat s)) =
        left_join (active_delete_files cat s)"
    by (rule ext) (rule left_join_flag)
  then show ?thesis
    by (simp add: data_file_query_def active_delete_files_flag)
qed

text \<open>
  C9. For a data file returned by \<^verbatim>\<open>get_data_files\<close> with a non-empty delete path,
  whose own path resolves and decodes: the delete path is that of a catalog delete file
  referencing a catalog data file with the returned path, it resolves under that data
  file's \<^verbatim>\<open>path_is_relative\<close> flag, and the resolved path is the one the loop reads
  after the data file; the delete files' own relativity flags can be set to anything
  without changing what \<^verbatim>\<open>get_data_files\<close> returns.
\<close>

theorem delete_path_resolved_with_data_file_flag:
  assumes "snd (get_data_files cat tid (Some s)) = Inr dfs"
    and "df \<in> set dfs"
    and "delete_file_path df = Some p" and "p \<noteq> []"
    and "resolve_path fs self (data_file_path df) (path_is_relative df) tn sn = Inr dp"
    and "snd (pq_read_table fs dp columns) = Inr t"
  shows "(\<exists>dat\<in>set (ducklake_data_file cat). \<exists>del\<in>set (ducklake_delete_file cat). \<exists>dq.
            del_data_file_id del = data_file_id dat \<and> del_path_str del = p \<and>
            data_file_path df = data_path_str dat \<and>
            resolve_path fs self p (data_is_relative dat) tn sn = Inr dq \<and>
            fst (read_data_file fs self tn sn columns df) = [ParquetRead dp, ParquetRead dq]) \<and>
         (\<forall>g. snd (get_data_files
                     (cat\<lparr>ducklake_delete_file :=
                            map (\<lambda>d. d\<lparr>del_is_relative := g d\<rparr>) (ducklake_delete_file cat)\<rparr>)
                     tid (Some s)) = Inr dfs)"
proof -
  from assms(1) have dfs: "dfs = map DataFile_of_row (data_file_query cat tid s)"
    by (simp add: get_data_files_Some)
  with assms(2) obtain r where r: "r \<in> set (data_file_query cat tid s)" "df = DataFile_of_row r"
    by auto
  with assms(3) have "(fst r, Some p) \<in> set (data_file_query cat tid s)"
    by (cases r) (simp add: DataFile_of_row_def)
  from data_file_query_Some [OF this] obtain del where
    del: "fst r \<in> set (ducklake_data_file cat)" "del \<in> set (ducklake_delete_file cat)"
      "del_data_file_id del = data_file_id (fst r)" "del_path_str del = p"
    by blast
  from r(2) have flag: "path_is_relative df = data_is_relative (fst r)"
    and pth: "data_file_path df = data_path_str (fst r)"
    by (simp_all add: DataFile_of_row_def)
  from resolve_path_same_flag [OF assms(5)] obtain dq where
    dq: "resolve_path fs self p (path_is_relative df) tn sn = Inr dq"
    by blast
  from fst_read_data_file_with_delete [OF assms(5) assms(6) assms(3) assms(4) dq]
  have tr: "fst (read_data_file fs self tn sn columns df) = [ParquetRead dp, ParquetRead dq]" .
  have first: "\<exists>dat\<in>set (ducklake_data_file cat). \<exists>del\<in>set (ducklake_delete_file cat). \<exists>dq.
            del_data_file_id del = data_file_id dat \<and> del_path_str del = p \<and>
            data_file_path df = data_path_str dat \<and>
            resolve_path fs self p (data_is_relative dat) tn sn = Inr dq \<and>
            fst (read_data_file fs self tn sn columns df) = [ParquetRead dp, ParquetRead dq]"
    using del pth dq tr unfolding flag by blast
  have second: "\<forall>g. snd (get_data_files
                     (cat\<lparr>ducklake_delete_file :=
                            map (\<lambda>d. d\<lparr>del_is_relative := g d\<rparr>) (ducklake_delete_file cat)\<rparr>)
                     tid (Some s)) = Inr dfs"
    by (simp add: get_data_files_Some data_file_query_flag dfs)
  from first second show ?thesis by blast
qed

theorem delete_path_resolved_with_data_file_flag_witness:
  "fst (read_data_file fs0 client0 ''t'' ''s'' None
          \<lparr>data_file_path = ''f'', delete_file_path = Some ''d'', path_is_relative = True\<rparr>) =
     [ParquetRead \<lparr>rooted = True, parts = [''l'', ''s'', ''t'', ''f'']\<rparr>,
      ParquetRead \<lparr>rooted = True, parts = [''l'', ''s'', ''t'', ''d'']\<rparr>] \<and>
   map (\<lambda>d. (del_path_str d, del_is_relative d)) (ducklake_delete_file cat0) =
     [(''/x/h'', False), (''d'', False)]"
proof -
  let ?df = "\<lparr>data_file_path = ''f'', delete_file_path = Some ''d'', path_is_relative = True\<rparr>"
  let ?dg = "\<lparr>data_file_path = ''/x/g'', delete_file_path = None, path_is_relative = False\<rparr>"
  let ?dp = "\<lparr>rooted = True, parts = [''l'', ''s'', ''t'', ''f'']\<rparr>"
  let ?dq = "\<lparr>rooted = True, parts = [''l'', ''s'', ''t'', ''d'']\<rparr>"
  have 1: "snd (get_data_files cat0 1 (Some 3)) = Inr [?df, ?dg]" by code_simp
  have 2: "?df \<in> set [?df, ?dg]" by simp
  have 3: "delete_file_path ?df = Some ''d''" by simp
  have 4: "''d'' \<noteq> []" by simp
  have 5: "resolve_path fs0 client0 (data_file_path ?df) (path_is_relative ?df) ''t'' ''s'' = Inr ?dp"
    by code_simp
  have 6: "snd (pq_read_table fs0 ?dp None) = Inr table_f" by code_simp
  have 7: "map (\<lambda>d. (del_path_str d, del_is_relative d)) (ducklake_delete_file cat0) =
     [(''/x/h'', False), (''d'', False)]" by code_simp
  have 8: "resolve_path fs0 client0 ''d'' True ''t'' ''s'' = Inr ?dq" by code_simp
  have 9: "\<forall>dat\<in>set (ducklake_data_file cat0). ''f'' = data_path_str dat \<longrightarrow> data_is_relative dat"
    by (simp add: cat0_def)
  from delete_path_resolved_with_data_file_flag [OF 1 2 3 4 5 6] obtain dat dq where
    d: "dat \<in> set (ducklake_data_file cat0)" "data_file_path ?df = data_path_str dat"
       "resolve_path fs0 client0 ''d'' (data_is_relative dat) ''t'' ''s'' = Inr dq"
       "fst (read_data_file fs0 client0 ''t'' ''s'' None ?df) = [ParquetRead ?dp, ParquetRead dq]"
    by blast
  from d(1,2) 9 have "data_is_relative dat" by simp
  with d(3) 8 have "dq = ?dq" by simp
  with d(4) 7 show ?thesis by simp
qed

subsection \<open>Concatenation in file order\<close>












subsection \<open>The position list of a delete file\<close>








subsection \<open>Projection\<close>

text \<open>
  On the table \<open>t\<close> of the small lake, read at the current snapshot, the projection on
  \<open>b\<close>, \<open>a\<close> gives these two columns in this order, with the values of the unprojected
  result.
\<close>

lemma read_table_projection_example:
  "snd (read_table fs0 client0 ''s'' ''t'' None (Some [''b'', ''a''])) =
     Inr \<lparr>schema = [(''b'', ''string''), (''a'', ''int32'')],
          rows = [[StrV ''x'', IntV 1], [StrV ''z'', IntV 3], [StrV ''w'', IntV 4]]\<rparr> \<and>
   Inr \<lparr>schema = [(''b'', ''string''), (''a'', ''int32'')],
        rows = [[StrV ''x'', IntV 1], [StrV ''z'', IntV 3], [StrV ''w'', IntV 4]]\<rparr> =
     select_columns [''b'', ''a'']
       \<lparr>schema = [(''a'', ''int32''), (''b'', ''string'')],
        rows = [[IntV 1, StrV ''x''], [IntV 3, StrV ''z''], [IntV 4, StrV ''w'']]\<rparr>"
  by code_simp

text \<open>
  C8. \<^verbatim>\<open>read_table\<close> with the columns \<open>a\<close>, \<open>b\<close> returns the columns \<open>a\<close>, \<open>b\<close> of the
  unprojected result at the same snapshot, for every table and snapshot. At a snapshot
  where the table has no data files the client does not: at snapshot 1 the table \<open>t\<close> of
  the small lake has the columns \<open>a\<close>, \<open>b\<close> and no data file; the unprojected read returns
  the zero-row table with these columns, the projected read raises
  \<^verbatim>\<open>UnboundLocalError\<close>.
\<close>

theorem read_table_projection_empty_table_raises:
  "read_table fs0 client0 ''s'' ''t'' (Some 1) None =
     ([SchemaQuery 1, TableQuery 1 1, DataFileQuery 1 1, ColumnQuery 1 1],
      Inr \<lparr>schema = [(''a'', ''string''), (''b'', ''string'')], rows = []\<rparr>) \<and>
   read_table fs0 client0 ''s'' ''t'' (Some 1) (Some [''a'', ''b'']) =
     ([SchemaQuery 1, TableQuery 1 1, DataFileQuery 1 1],
      Inl (UnboundLocalError ''table_columns''))"
  by code_simp

end
